theory Spec2Isabelle
  imports Main "HOL-Library.Word"
begin

unbundle bit_operations_syntax

section \<open>Data model of the memory manager\<close>

text \<open>
  The embedded program is the Go package \<open>manager\<close>: a registry of snapshot states
  (\<open>MemoryManager\<close>) and an epoll loop that serves userfaultfd page faults from a
  memory-mapped guest memory file.  Kernel calls are outcomes supplied by the caller of the
  model and are recorded in a trace, so that what the code does (or omits) on an error path
  can be stated.
\<close>

type_synonym uint64 = "64 word"
type_synonym byte = "8 word"

text \<open>A Go \<open>[]byte\<close> obtained from \<open>unix.Mmap\<close>: the host address of element 0 and the
  length.  The nil slice has length 0.\<close>

record slice =
  slice_ptr :: uint64
  slice_len :: nat

definition nil_slice :: slice where
  "nil_slice = \<lparr>slice_ptr = 0, slice_len = 0\<rparr>"

text \<open>Errors returned to the caller: \<open>errors.New msg\<close>, or the error of a system call.\<close>

datatype error = errors_New string | Errno nat

text \<open>Process-ending outcomes: \<open>log.Fatalf\<close> (logs and exits) and a Go \<open>panic\<close>, either
  explicit or raised by a failed bounds check.\<close>

datatype fatal = log_Fatalf string | panic string

record SnapshotStateCfg =
  cfg_vmID :: string
  cfg_guestMemFileName :: string
  cfg_guestMemSize :: int

text \<open>\<open>startAddressOnce\<close> is the \<open>sync.Once\<close> of the state: \<open>True\<close> once its \<open>Do\<close> has
  run.  \<open>UserFaultFD\<close> is the descriptor number that \<open>state.UserFaultFD.Fd()\<close> yields.\<close>

record SnapshotState =
  guestMemFileName :: string
  guestMemSize :: int
  guestMem :: slice
  UserFaultFD :: int
  startAddress :: uint64
  startAddressOnce :: bool

record MemoryManager =
  inactive :: "string \<rightharpoonup> SnapshotState"
  activeFdState :: "int \<rightharpoonup> SnapshotState"
  activeVmFd :: "string \<rightharpoonup> int"
  epfd :: int

text \<open>The argument block of the \<open>UFFDIO_COPY\<close> ioctl (\<open>C.struct_uffdio_copy\<close>) together
  with the descriptor the ioctl is issued on.\<close>

record uffdio_copy =
  ioctl_fd :: int
  copy_mode :: uint64
  copy_copy :: uint64
  copy_src :: uint64
  copy_dst :: uint64
  copy_len :: uint64

section \<open>Serving one page fault\<close>

text \<open>\<open>installRegion(fd, src, dst, mode, len)\<close>: fills the ioctl block; the length field is
  \<open>pageSize * len\<close> in 64-bit arithmetic.  \<open>pageSize\<close> is a constant of the package that is
  declared outside the file and is taken as a parameter.\<close>

definition installRegion :: "uint64 \<Rightarrow> int \<Rightarrow> uint64 \<Rightarrow> uint64 \<Rightarrow> uint64 \<Rightarrow> uint64 \<Rightarrow> uffdio_copy" where
  "installRegion pageSize fd src dst mode len =
     \<lparr>ioctl_fd = fd, copy_mode = mode, copy_copy = 0, copy_src = src, copy_dst = dst,
      copy_len = pageSize * len\<rparr>"

definition getSnapshotState :: "MemoryManager \<Rightarrow> int \<Rightarrow> fatal + SnapshotState" where
  "getSnapshotState v fd =
     (case activeFdState v fd of
        Some state \<Rightarrow> Inr state
      | None \<Rightarrow> Inl (log_Fatalf ''getSnapshotState: fd not found''))"

text \<open>\<open>&state.guestMem[offset]\<close>: Go checks the index against the length of the slice and
  panics when it is out of range; otherwise the address is that of element 0 plus the index.\<close>

definition index_addr :: "slice \<Rightarrow> uint64 \<Rightarrow> fatal + uint64" where
  "index_addr s offset =
     (if unat offset < slice_len s then Inr (slice_ptr s + offset)
      else Inl (panic ''index out of range''))"

text \<open>\<open>servePageFault(fd, address)\<close>.  The result is the ioctl that is issued, or the fatal
  outcome that prevents it.  The error returned by \<open>installRegion\<close> is dropped by the source.
  \<open>int64(address) & ^(int64(pageSize) - 1)\<close> is computed on the same 64 bits as the unsigned
  values.\<close>

definition servePageFault :: "uint64 \<Rightarrow> MemoryManager \<Rightarrow> int \<Rightarrow> uint64 \<Rightarrow> fatal + uffdio_copy" where
  "servePageFault pageSize v fd address =
     (case getSnapshotState v fd of
        Inl f \<Rightarrow> Inl f
      | Inr state \<Rightarrow>
          (let offset = address - startAddress state in
           case index_addr (guestMem state) offset of
             Inl f \<Rightarrow> Inl f
           | Inr src \<Rightarrow>
               (let dst = address AND NOT (pageSize - 1);
                    mode = 0
                in Inr (installRegion pageSize fd src dst mode 1))))"

section \<open>Reading one fault message\<close>

text \<open>Constants that the package takes from the kernel headers through cgo and that are not
  declared in the file: the page size, \<open>C.sizeof_struct_uffd_msg\<close> and
  \<open>C.const_UFFD_EVENT_PAGEFAULT\<close>.\<close>

record constants =
  pageSize :: uint64
  sizeof_struct_uffd_msg :: nat
  const_UFFD_EVENT_PAGEFAULT :: byte

text \<open>What the kernel answers to one \<open>read\<close> on a descriptor: an error, or the bytes it
  delivers.\<close>

datatype read_outcome = read_error nat | read_bytes "byte list"

text \<open>\<open>syscall.Read(fd, goMsg)\<close> on a zeroed buffer of \<open>n\<close> bytes: the count, the error and
  the buffer afterwards.  At most \<open>n\<close> bytes are stored; the rest of the buffer stays zero.\<close>

definition syscall_Read :: "nat \<Rightarrow> read_outcome \<Rightarrow> int \<times> error option \<times> byte list" where
  "syscall_Read n r =
     (case r of
        read_error e \<Rightarrow> (- 1, Some (Errno e), replicate n 0)
      | read_bytes d \<Rightarrow>
          (int (min (length d) n), None, take n d @ replicate (n - length d) 0))"

text \<open>\<open>binary.LittleEndian.Uint64(b)\<close>: panics on fewer than 8 bytes, else combines
  \<open>b[0] | b[1]<<8 | ... | b[7]<<56\<close>.\<close>

definition LittleEndian_Uint64 :: "byte list \<Rightarrow> fatal + uint64" where
  "LittleEndian_Uint64 b =
     (if length b < 8 then Inl (panic ''index out of range'')
      else Inr (ucast (b ! 0) OR push_bit 8 (ucast (b ! 1)) OR push_bit 16 (ucast (b ! 2))
                OR push_bit 24 (ucast (b ! 3)) OR push_bit 32 (ucast (b ! 4))
                OR push_bit 40 (ucast (b ! 5)) OR push_bit 48 (ucast (b ! 6))
                OR push_bit 56 (ucast (b ! 7))))"

text \<open>\<open>extractPageFaultAddress(fd)\<close>, given the kernel's answer to the read.  \<open>goMsg[0]\<close> and
  \<open>goMsg[16:]\<close> carry Go's bounds checks.\<close>

definition extractPageFaultAddress :: "constants \<Rightarrow> read_outcome \<Rightarrow> fatal + uint64" where
  "extractPageFaultAddress K r =
     (case syscall_Read (sizeof_struct_uffd_msg K) r of
        (nread, err, goMsg) \<Rightarrow>
          if err \<noteq> None \<or> nread \<noteq> int (length goMsg)
          then Inl (log_Fatalf ''Read uffd_msg failed'')
          else if length goMsg < 1 then Inl (panic ''index out of range'')
          else if goMsg ! 0 \<noteq> const_UFFD_EVENT_PAGEFAULT K
          then Inl (log_Fatalf ''Received wrong event type'')
          else if length goMsg < 16 then Inl (panic ''slice bounds out of range'')
          else LittleEndian_Uint64 (drop 16 goMsg))"

section \<open>The polling loop\<close>

text \<open>\<open>state.startAddressOnce.Do(func() { state.startAddress = address })\<close>: the function
  runs only on the first \<open>Do\<close> of this \<open>sync.Once\<close>.\<close>

definition startAddressOnce_Do :: "SnapshotState \<Rightarrow> uint64 \<Rightarrow> SnapshotState" where
  "startAddressOnce_Do state address =
     (if startAddressOnce state then state
      else state\<lparr>startAddress := address, startAddressOnce := True\<rparr>)"

record EpollEvent =
  Events :: "32 word"
  Fd :: int

definition zero_event :: EpollEvent where
  "zero_event = \<lparr>Events = 0, Fd = 0\<rparr>"

text \<open>What the loop does, in order: a read on a descriptor that returned an address, a read
  that ended the process, and a page install.\<close>

datatype action = act_fault int uint64 | act_read_failed int | act_copy uffdio_copy

text \<open>The body of \<open>for _, event := range events\<close> for one array element.  The states are
  held by pointer in \<open>activeFdState\<close>, so the latch is written back under the descriptor.  The
  goroutine started for \<open>servePageFault\<close> is run in place; a panic in it ends the process as
  it does in Go.  \<open>rd\<close> is the kernel's answer to the read.\<close>

definition serveEvent :: "constants \<Rightarrow> read_outcome \<Rightarrow> MemoryManager \<Rightarrow> EpollEvent \<Rightarrow>
    fatal option \<times> MemoryManager \<times> action list" where
  "serveEvent K rd v event =
     (let fd = Fd event in
      case activeFdState v fd of
        None \<Rightarrow> (Some (log_Fatalf ''received event from file which is not active''), v, [])
      | Some _ \<Rightarrow>
          (case extractPageFaultAddress K rd of
             Inl f \<Rightarrow> (Some f, v, [act_read_failed fd])
           | Inr address \<Rightarrow>
               (case getSnapshotState v fd of
                  Inl f \<Rightarrow> (Some f, v, [act_fault fd address])
                | Inr state \<Rightarrow>
                    (let v' = v\<lparr>activeFdState :=
                                 (activeFdState v)(fd \<mapsto> startAddressOnce_Do state address)\<rparr>
                     in case servePageFault (pageSize K) v' fd address of
                          Inl f \<Rightarrow> (Some f, v', [act_fault fd address])
                        | Inr c \<Rightarrow> (None, v', [act_fault fd address, act_copy c])))))"

text \<open>The \<open>range\<close> loop over the array.  \<open>rds n fd\<close> is the kernel's answer to the read made
  for array element \<open>n\<close> on descriptor \<open>fd\<close>.  The loop stops where the process ends.\<close>

fun serveEvents :: "constants \<Rightarrow> (nat \<Rightarrow> int \<Rightarrow> read_outcome) \<Rightarrow> nat \<Rightarrow> MemoryManager \<Rightarrow>
    EpollEvent list \<Rightarrow> fatal option \<times> MemoryManager \<times> action list" where
  "serveEvents K rds n v [] = (None, v, [])"
| "serveEvents K rds n v (event # rest) =
     (case serveEvent K (rds n (Fd event)) v event of
        (Some f, v', tr) \<Rightarrow> (Some f, v', tr)
      | (None, v', tr) \<Rightarrow>
          (case serveEvents K rds (Suc n) v' rest of
             (r, v'', tr') \<Rightarrow> (r, v'', tr @ tr')))"

text \<open>What the kernel answers to one \<open>epoll_wait\<close>: an error, or the ready events, which it
  stores at the front of the caller's array.\<close>

datatype wait_outcome = wait_error nat | wait_ready "EpollEvent list"

text \<open>\<open>syscall.EpollWait(v.epfd, events[:], -1)\<close> on the array \<open>events\<close> of the loop: the
  count, the error and the array afterwards.  Elements behind the count keep what they held.\<close>

definition syscall_EpollWait :: "EpollEvent list \<Rightarrow> wait_outcome \<Rightarrow>
    int \<times> error option \<times> EpollEvent list" where
  "syscall_EpollWait events w =
     (case w of
        wait_error e \<Rightarrow> (- 1, Some (Errno e), events)
      | wait_ready ready \<Rightarrow>
          (let n = min (length ready) (length events)
           in (int n, None, take n ready @ drop n events)))"

text \<open>One pass through the \<open>default\<close> branch of the loop: wait, check the count, then range
  over the array.  The result carries the array for the next pass.\<close>

definition wake :: "constants \<Rightarrow> MemoryManager \<Rightarrow> EpollEvent list \<Rightarrow>
    wait_outcome \<times> (nat \<Rightarrow> int \<Rightarrow> read_outcome) \<Rightarrow>
    fatal option \<times> MemoryManager \<times> EpollEvent list \<times> action list" where
  "wake K v events w =
     (case syscall_EpollWait events (fst w) of
        (nevents, e, events') \<Rightarrow>
          if e \<noteq> None then (Some (log_Fatalf ''epoll_wait''), v, events', [])
          else if nevents < 1 then (Some (panic ''Wrong number of events''), v, events', [])
          else (case serveEvents K (snd w) 0 v events' of
                  (r, v', tr) \<Rightarrow> (r, v', events', tr)))"

text \<open>The \<open>for\<close> loop: one element of the list per wake, the end of the list is the message
  on \<open>quitCh\<close>.\<close>

fun loop :: "constants \<Rightarrow> MemoryManager \<Rightarrow> EpollEvent list \<Rightarrow>
    (wait_outcome \<times> (nat \<Rightarrow> int \<Rightarrow> read_outcome)) list \<Rightarrow>
    fatal option \<times> MemoryManager \<times> action list" where
  "loop K v events [] = (None, v, [])"
| "loop K v events (w # ws) =
     (case wake K v events w of
        (Some f, v', events', tr) \<Rightarrow> (Some f, v', tr)
      | (None, v', events', tr) \<Rightarrow>
          (case loop K v' events' ws of (r, v'', tr') \<Rightarrow> (r, v'', tr @ tr')))"

text \<open>\<open>pollingLoop\<close>: \<open>epoll_create1\<close>, then the loop on the zeroed array
  \<open>[1000]syscall.EpollEvent\<close>.\<close>

definition pollingLoop :: "constants \<Rightarrow> error + int \<Rightarrow> MemoryManager \<Rightarrow>
    (wait_outcome \<times> (nat \<Rightarrow> int \<Rightarrow> read_outcome)) list \<Rightarrow>
    fatal option \<times> MemoryManager \<times> action list" where
  "pollingLoop K created v ws =
     (case created of
        Inl err \<Rightarrow> (Some (log_Fatalf ''epoll_create1''), v, [])
      | Inr e \<Rightarrow> loop K (v\<lparr>epfd := e\<rparr>) (replicate 1000 zero_event) ws)"

text \<open>The addresses read on one descriptor, in the order of the reads.\<close>

fun faults_on :: "int \<Rightarrow> action list \<Rightarrow> uint64 list" where
  "faults_on fd [] = []"
| "faults_on fd (act_fault fd' a # tr) = (if fd' = fd then a # faults_on fd tr else faults_on fd tr)"
| "faults_on fd (_ # tr) = faults_on fd tr"

text \<open>The number of reads made, whatever their result.\<close>

fun reads :: "action list \<Rightarrow> nat" where
  "reads [] = 0"
| "reads (act_fault fd a # tr) = Suc (reads tr)"
| "reads (act_read_failed fd # tr) = Suc (reads tr)"
| "reads (act_copy c # tr) = reads tr"

section \<open>The registry\<close>

text \<open>Kernel and hypervisor calls made by the registry operations, recorded in order.\<close>

datatype syscall =
    sys_open string
  | sys_mmap int
  | sys_munmap slice
  | sys_close int
  | sys_recv_uffd
  | sys_epoll_ctl_add int int
  | sys_epoll_ctl_del int int

datatype mmap_outcome = open_failed nat | mmap_failed nat | mapped uint64

datatype uffd_outcome = uffd_failed | uffd_received int

text \<open>The answers of the environment to the calls of \<open>AddInstance\<close> and of
  \<open>RemoveInstance\<close>; \<open>None\<close> is success, \<open>Some e\<close> the error number.\<close>

record add_env =
  env_mmap :: mmap_outcome
  env_uffd :: uffd_outcome
  env_epoll_add :: "nat option"

record remove_env =
  env_epoll_del :: "nat option"
  env_munmap :: "nat option"

text \<open>Modelled from the spec: \<open>NewSnapshotState\<close>, which is called by \<open>RegisterVM\<close> and is
  not in the file.  The specification has it construct the state from the configuration; the
  mapping, the descriptor and the latch are the zero values of their Go types (a nil slice, a
  nil \<open>*os.File\<close> whose \<open>Fd()\<close> is \<open>-1\<close>, a \<open>sync.Once\<close> that has not run).\<close>

definition NewSnapshotState :: "SnapshotStateCfg \<Rightarrow> SnapshotState" where
  "NewSnapshotState cfg =
     \<lparr>guestMemFileName = cfg_guestMemFileName cfg, guestMemSize = cfg_guestMemSize cfg,
      guestMem = nil_slice, UserFaultFD = - 1, startAddress = 0, startAddressOnce = False\<rparr>"

text \<open>Modelled from the spec: \<open>getUFFD\<close>, which is called by \<open>AddInstance\<close> and is not in
  the file.  The specification has the descriptor handed over by the hypervisor on a socket and
  stored in the state; when the hand-over fails the state keeps what it held.\<close>

definition getUFFD :: "uffd_outcome \<Rightarrow> SnapshotState \<Rightarrow> SnapshotState" where
  "getUFFD u s = (case u of uffd_failed \<Rightarrow> s | uffd_received n \<Rightarrow> s\<lparr>UserFaultFD := n\<rparr>)"

text \<open>\<open>mapGuestMemory\<close>: open, then mmap of \<open>guestMemSize\<close> bytes.  A failed \<open>unix.Mmap\<close>
  returns the nil slice, which the assignment stores.\<close>

definition mapGuestMemory :: "mmap_outcome \<Rightarrow> SnapshotState \<Rightarrow>
    error option \<times> SnapshotState \<times> syscall list" where
  "mapGuestMemory m s =
     (case m of
        open_failed e \<Rightarrow> (Some (Errno e), s, [sys_open (guestMemFileName s)])
      | mmap_failed e \<Rightarrow>
          (Some (Errno e), s\<lparr>guestMem := nil_slice\<rparr>,
           [sys_open (guestMemFileName s), sys_mmap (guestMemSize s)])
      | mapped a \<Rightarrow>
          (None, s\<lparr>guestMem := \<lparr>slice_ptr = a, slice_len = nat (guestMemSize s)\<rparr>\<rparr>,
           [sys_open (guestMemFileName s), sys_mmap (guestMemSize s)]))"

text \<open>\<open>unmapGuestMemory\<close>: \<open>unix.Munmap\<close> of the slice; the field is left as it is.\<close>

definition unmapGuestMemory :: "nat option \<Rightarrow> SnapshotState \<Rightarrow> error option \<times> syscall list" where
  "unmapGuestMemory m s =
     (case m of
        Some e \<Rightarrow> (Some (Errno e), [sys_munmap (guestMem s)])
      | None \<Rightarrow> (None, [sys_munmap (guestMem s)]))"

text \<open>\<open>NewMemoryManager\<close>: three empty maps; \<open>epfd\<close> is set by \<open>pollingLoop\<close>.\<close>

definition NewMemoryManager :: MemoryManager where
  "NewMemoryManager =
     \<lparr>inactive = Map.empty, activeFdState = Map.empty, activeVmFd = Map.empty, epfd = 0\<rparr>"

text \<open>\<open>RegisterVM(cfg)\<close>.  The source names the key \<open>vmID\<close>; it is the identifier of the
  configuration.\<close>

definition RegisterVM :: "MemoryManager \<Rightarrow> SnapshotStateCfg \<Rightarrow>
    error option \<times> MemoryManager \<times> syscall list" where
  "RegisterVM v cfg =
     (let vmID = cfg_vmID cfg in
      if inactive v vmID \<noteq> None
      then (Some (errors_New ''VM exists in the memory manager''), v, [])
      else if activeVmFd v vmID \<noteq> None
      then (Some (errors_New ''VM already active in the memory manager''), v, [])
      else (let state = NewSnapshotState cfg
            in (None, v\<lparr>inactive := (inactive v)(vmID \<mapsto> state)\<rparr>, [])))"

text \<open>\<open>AddInstance(vmID)\<close>.  The struct has the two active maps \<open>activeVmFd\<close> and
  \<open>activeFdState\<close>; the source also writes \<open>vmFdMap\<close> and \<open>snapStateMap\<close> for them.
  \<open>state\<close> is the state registered under \<open>vmID\<close>; it is held by pointer, so what
  \<open>mapGuestMemory\<close> stores in it is stored in the map.  The result of \<open>getUFFD\<close> is not
  looked at by the source.  An error of \<open>EpollCtl\<close> is returned as it is, after the maps have
  been updated.\<close>

definition AddInstance :: "add_env \<Rightarrow> MemoryManager \<Rightarrow> string \<Rightarrow>
    error option \<times> MemoryManager \<times> syscall list" where
  "AddInstance env v vmID =
     (case inactive v vmID of
        None \<Rightarrow> (Some (errors_New ''VM not registered with the memory manager''), v, [])
      | Some state \<Rightarrow>
          if activeVmFd v vmID \<noteq> None
          then (Some (errors_New ''VM exists in the memory manager''), v, [])
          else
            (case mapGuestMemory (env_mmap env) state of
               (Some err, state', calls) \<Rightarrow>
                 (Some err, v\<lparr>inactive := (inactive v)(vmID \<mapsto> state')\<rparr>, calls)
             | (None, state', calls) \<Rightarrow>
                 (let state'' = getUFFD (env_uffd env) state';
                      fdInt = UserFaultFD state'';
                      v' = v\<lparr>inactive := (inactive v)(vmID := None),
                             activeVmFd := (activeVmFd v)(vmID \<mapsto> fdInt),
                             activeFdState := (activeFdState v)(fdInt \<mapsto> state'')\<rparr>;
                      calls' = calls @ [sys_recv_uffd, sys_epoll_ctl_add (epfd v) fdInt]
                  in case env_epoll_add env of
                       Some e \<Rightarrow> (Some (Errno e), v', calls')
                     | None \<Rightarrow> (None, v', calls'))))"

text \<open>\<open>RemoveInstance(vmID)\<close>.  The first test is on \<open>inactive\<close>, as the source has it.  The
  last statement of the source, \<open>v.inactive = state\<close>, assigns a state to the map; it is read
  as storing the state under \<open>vmID\<close>.\<close>

definition RemoveInstance :: "remove_env \<Rightarrow> MemoryManager \<Rightarrow> string \<Rightarrow>
    error option \<times> MemoryManager \<times> syscall list" where
  "RemoveInstance env v vmID =
     (if inactive v vmID = None
      then (Some (errors_New ''VM not registered with the memory manager''), v, [])
      else
        (case activeVmFd v vmID of
           None \<Rightarrow> (Some (errors_New ''Failed to find fd''), v, [])
         | Some fdInt \<Rightarrow>
             (case activeFdState v fdInt of
                None \<Rightarrow> (Some (errors_New ''Failed to find snapshot state''), v, [])
              | Some state \<Rightarrow>
                  (case env_epoll_del env of
                     Some e \<Rightarrow> (Some (Errno e), v, [sys_epoll_ctl_del (epfd v) fdInt])
                   | None \<Rightarrow>
                       (case unmapGuestMemory (env_munmap env) state of
                          (Some err, calls) \<Rightarrow>
                            (Some err, v, sys_epoll_ctl_del (epfd v) fdInt # calls)
                        | (None, calls) \<Rightarrow>
                            (None,
                             v\<lparr>activeFdState := (activeFdState v)(fdInt := None),
                               activeVmFd := (activeVmFd v)(vmID := None),
                               inactive := (inactive v)(vmID \<mapsto> state)\<rparr>,
                             sys_epoll_ctl_del (epfd v) fdInt # calls @ [sys_close (UserFaultFD state)]))))))"

text \<open>\<open>FetchState(vmID)\<close>: not implemented, returns \<open>nil\<close>.\<close>

definition FetchState :: "MemoryManager \<Rightarrow> string \<Rightarrow>
    error option \<times> MemoryManager \<times> syscall list" where
  "FetchState v vmID = (None, v, [])"

text \<open>A call of one of the four operations, with the answers of the environment to it.\<close>

datatype operation =
    op_RegisterVM SnapshotStateCfg
  | op_AddInstance add_env string
  | op_RemoveInstance remove_env string
  | op_FetchState string

fun perform :: "MemoryManager \<Rightarrow> operation \<Rightarrow> error option \<times> MemoryManager \<times> syscall list" where
  "perform v (op_RegisterVM cfg) = RegisterVM v cfg"
| "perform v (op_AddInstance env vmID) = AddInstance env v vmID"
| "perform v (op_RemoveInstance env vmID) = RemoveInstance env v vmID"
| "perform v (op_FetchState vmID) = FetchState v vmID"

text \<open>The manager after a sequence of calls, each made whatever the earlier ones returned.\<close>

definition after :: "MemoryManager \<Rightarrow> operation list \<Rightarrow> MemoryManager" where
  "after v ops = foldl (\<lambda>v' c. fst (snd (perform v' c))) v ops"

text \<open>The invariants of the three maps: no identifier is a key of both \<open>inactive\<close> and
  \<open>activeVmFd\<close>; the descriptors that \<open>activeVmFd\<close> maps to are the keys of
  \<open>activeFdState\<close>.\<close>

definition exclusive :: "MemoryManager \<Rightarrow> bool" where
  "exclusive v = (\<forall>vmID. inactive v vmID = None \<or> activeVmFd v vmID = None)"

definition fds_agree :: "MemoryManager \<Rightarrow> bool" where
  "fds_agree v = (ran (activeVmFd v) = dom (activeFdState v))"

text \<open>What a run of the loop does to the manager: the two maps keyed by identifier are
  kept, and each active state has been offered, in order, the addresses read on its
  descriptor.\<close>

definition latched_by :: "MemoryManager \<Rightarrow> action list \<Rightarrow> MemoryManager \<Rightarrow> bool" where
  "latched_by v tr v' \<longleftrightarrow>
     inactive v' = inactive v \<and> activeVmFd v' = activeVmFd v \<and>
     (\<forall>fd. activeFdState v' fd =
        map_option (\<lambda>st. foldl startAddressOnce_Do st (faults_on fd tr)) (activeFdState v fd))"

section \<open>Concrete inputs\<close>

text \<open>The values of Linux on x86-64 for the three constants, and the first scenario of the
  specification: a snapshot of 8192 bytes for \<open>vm1\<close>, handed descriptor 5, mapped at host
  address \<open>0x7F0000000000\<close>, with the first fault at guest address \<open>0x10000000\<close>.\<close>

definition linux_constants :: constants where
  "linux_constants =
     \<lparr>pageSize = 4096, sizeof_struct_uffd_msg = 32, const_UFFD_EVENT_PAGEFAULT = 0x12\<rparr>"

definition vm1_cfg :: SnapshotStateCfg where
  "vm1_cfg = \<lparr>cfg_vmID = ''vm1'', cfg_guestMemFileName = ''/snap/vm1.mem'',
              cfg_guestMemSize = 8192\<rparr>"

definition vm1_env :: add_env where
  "vm1_env = \<lparr>env_mmap = mapped 0x7F0000000000, env_uffd = uffd_received 5,
              env_epoll_add = None\<rparr>"

definition remove_ok :: remove_env where
  "remove_ok = \<lparr>env_epoll_del = None, env_munmap = None\<rparr>"

definition vm1_state :: SnapshotState where
  "vm1_state =
     \<lparr>guestMemFileName = ''/snap/vm1.mem'', guestMemSize = 8192,
      guestMem = \<lparr>slice_ptr = 0x7F0000000000, slice_len = 8192\<rparr>, UserFaultFD = 5,
      startAddress = 0x10000000, startAddressOnce = True\<rparr>"

definition vm1_active :: MemoryManager where
  "vm1_active =
     \<lparr>inactive = Map.empty, activeFdState = [5 \<mapsto> vm1_state], activeVmFd = [''vm1'' \<mapsto> 5],
      epfd = 3\<rparr>"

text \<open>A state whose latched base is the last page of the 64-bit address space.\<close>

definition high_state :: SnapshotState where
  "high_state = vm1_state\<lparr>startAddress := 0xFFFFFFFFFFFFF000\<rparr>"

definition high_active :: MemoryManager where
  "high_active = vm1_active\<lparr>activeFdState := [5 \<mapsto> high_state]\<rparr>"

text \<open>A userfault message of 32 bytes: the event kind in byte 0, the address in bytes 16 to
  23, least significant byte first.\<close>

definition fault_message :: "uint64 \<Rightarrow> byte list" where
  "fault_message a =
     [0x12, 0, 0, 0, 0, 0, 0, 0, 0, 0, 0, 0, 0, 0, 0, 0,
      ucast a, ucast (drop_bit 8 a), ucast (drop_bit 16 a), ucast (drop_bit 24 a),
      ucast (drop_bit 32 a), ucast (drop_bit 40 a), ucast (drop_bit 48 a),
      ucast (drop_bit 56 a),
      0, 0, 0, 0, 0, 0, 0, 0]"

text \<open>The same manager before the first fault of \<open>vm1\<close>.\<close>

definition vm1_unlatched :: MemoryManager where
  "vm1_unlatched =
     vm1_active\<lparr>activeFdState :=
       [5 \<mapsto> vm1_state\<lparr>startAddress := 0, startAddressOnce := False\<rparr>]\<rparr>"

text \<open>One wake of the loop in which \<open>epoll_wait\<close> reports one ready event, on descriptor 5,
  and the read on it delivers the fault at the given address.\<close>

definition one_event :: "uint64 \<Rightarrow> wait_outcome \<times> (nat \<Rightarrow> int \<Rightarrow> read_outcome)" where
  "one_event a =
     (wait_ready [\<lparr>Events = 1, Fd = 5\<rparr>], \<lambda>n fd. read_bytes (fault_message a))"

section \<open>Serving a fault: the arguments of the page install\<close>

lemma dst_bits:
  fixes address :: uint64
  assumes "ps = 2 ^ k"
  shows "take_bit k (address AND NOT (ps - 1)) = 0"
    and "drop_bit k (address AND NOT (ps - 1)) = drop_bit k address"
proof -
  have m: "ps - 1 = mask k" using assms by (simp add: mask_eq_exp_minus_1)
  show "take_bit k (address AND NOT (ps - 1)) = 0"
    unfolding m by (rule bit_eqI) (auto simp: bit_simps)
  show "drop_bit k (address AND NOT (ps - 1)) = drop_bit k address"
    unfolding m by (rule bit_eqI) (auto simp: bit_simps dest: bit_imp_le_length)
qed

lemma serve_Inr_iff:
  "servePageFault ps v fd address = Inr c \<longleftrightarrow>
   (\<exists>state. activeFdState v fd = Some state \<and>
      unat (address - startAddress state) < slice_len (guestMem state) \<and>
      c = \<lparr>ioctl_fd = fd, copy_mode = 0, copy_copy = 0,
           copy_src = slice_ptr (guestMem state) + (address - startAddress state),
           copy_dst = address AND NOT (ps - 1), copy_len = ps\<rparr>)"
  by (auto simp: servePageFault_def getSnapshotState_def index_addr_def installRegion_def Let_def
      split: option.splits sum.splits if_splits)

lemma serve_Inl_iff:
  "servePageFault ps v fd address = Inl f \<longleftrightarrow>
   (case activeFdState v fd of
      None \<Rightarrow> f = log_Fatalf ''getSnapshotState: fd not found''
    | Some state \<Rightarrow> \<not> unat (address - startAddress state) < slice_len (guestMem state) \<and>
        f = panic ''index out of range'')"
  by (auto simp: servePageFault_def getSnapshotState_def index_addr_def installRegion_def Let_def
      split: option.splits sum.splits if_splits)

lemmas example_defs =
  linux_constants_def vm1_cfg_def vm1_env_def remove_ok_def vm1_state_def vm1_active_def
  high_state_def high_active_def vm1_unlatched_def one_event_def

text \<open>
  Claim C1.  Whenever \<open>servePageFault\<close> issues the page install for a fault on an active
  state, the source is the host address of byte \<open>address - startAddress\<close> of the mapping (and
  that byte is inside the mapping), the destination is the fault address with its low \<open>k\<close>
  bits cleared, where the page size is \<open>2 ^ k\<close>, the length is one page and the mode is 0.
\<close>

theorem servePageFault_install_arguments:
  assumes "activeFdState v fd = Some state"
    and "servePageFault ps v fd address = Inr c"
    and "ps = 2 ^ k"
  shows "unat (address - startAddress state) < slice_len (guestMem state) \<and>
         copy_src c = slice_ptr (guestMem state) + (address - startAddress state) \<and>
         take_bit k (copy_dst c) = 0 \<and> drop_bit k (copy_dst c) = drop_bit k address \<and>
         copy_len c = ps \<and> copy_mode c = 0 \<and> ioctl_fd c = fd"
  using assms dst_bits[of ps k address] by (auto simp: serve_Inr_iff)

theorem servePageFault_install_arguments_witness:
  "activeFdState vm1_active 5 = Some vm1_state \<and>
   servePageFault 4096 vm1_active 5 0x10001234 =
     Inr \<lparr>ioctl_fd = 5, copy_mode = 0, copy_copy = 0, copy_src = 0x7F0000001234,
          copy_dst = 0x10001000, copy_len = 4096\<rparr> \<and>
   (4096 :: uint64) = 2 ^ 12 \<and>
   take_bit 12 (0x10001000 :: uint64) = 0 \<and>
   drop_bit 12 (0x10001000 :: uint64) = drop_bit 12 0x10001234"
proof -
  let ?c = "\<lparr>ioctl_fd = 5, copy_mode = 0, copy_copy = 0, copy_src = 0x7F0000001234,
             copy_dst = 0x10001000, copy_len = 4096\<rparr>"
  have h1: "activeFdState vm1_active 5 = Some vm1_state"
    by (simp add: example_defs)
  have h2: "servePageFault 4096 vm1_active 5 0x10001234 = Inr ?c"
    by (simp add: serve_Inr_iff example_defs)
  have h3: "(4096 :: uint64) = 2 ^ 12" by simp
  from servePageFault_install_arguments[OF h1 h2 h3]
  have "take_bit 12 (0x10001000 :: uint64) = 0 \<and>
        drop_bit 12 (0x10001000 :: uint64) = drop_bit 12 0x10001234"
    by simp
  with h1 h2 h3 show ?thesis by blast
qed

section \<open>Serving a fault: which offsets are served\<close>

lemma off_dvd:
  fixes off ps :: uint64
  assumes "unat ps dvd unat off" "unat ps dvd n" "unat off < n"
  shows "unat off + unat ps \<le> n"
proof -
  obtain a where a: "unat off = unat ps * a" using assms(1) by (auto simp: dvd_def)
  obtain b where b: "n = unat ps * b" using assms(2) by (auto simp: dvd_def)
  from assms(3) a b have "unat ps * a < unat ps * b" by simp
  then have "a < b" and "0 < unat ps" by auto
  then have "Suc a \<le> b" by simp
  then have "unat ps * Suc a \<le> unat ps * b" by (rule mult_le_mono2)
  then show ?thesis using a b by simp
qed

lemma off_end:
  fixes base :: uint64
  assumes "n < 2 ^ 64"
  shows "unat (base + of_nat n - base) = n"
  using assms by (simp add: unat_of_nat)

lemma off_last_page:
  fixes ps base :: uint64
  assumes "0 < unat ps" "unat ps \<le> n" "n < 2 ^ 64"
  shows "unat (base + of_nat n - ps - base) = n - unat ps"
proof -
  have "base + of_nat n - ps - base = of_nat n - ps" by simp
  moreover have "unat (of_nat n :: uint64) = n" using assms(3) by (simp add: unat_of_nat)
  ultimately show ?thesis using assms(2) by (simp add: unat_sub_if')
qed

lemma serve_bounds:
  assumes "activeFdState v fd = Some state"
    and "slice_len (guestMem state) = n"
  shows "((\<exists>c. servePageFault ps v fd address = Inr c) \<longleftrightarrow>
            unat (address - startAddress state) < n) \<and>
         (\<not> unat (address - startAddress state) < n \<longrightarrow>
            servePageFault ps v fd address = Inl (panic ''index out of range'')) \<and>
         (n < 2 ^ 64 \<longrightarrow>
            servePageFault ps v fd (startAddress state + of_nat n) =
              Inl (panic ''index out of range'')) \<and>
         (0 < unat ps \<and> unat ps \<le> n \<and> n < 2 ^ 64 \<longrightarrow>
            (\<exists>c. servePageFault ps v fd (startAddress state + of_nat n - ps) = Inr c)) \<and>
         (unat ps dvd unat (address - startAddress state) \<and> unat ps dvd n \<and>
          (\<exists>c. servePageFault ps v fd address = Inr c) \<longrightarrow>
            unat (address - startAddress state) + unat ps \<le> n)"
proof -
  have A: "(\<exists>c. servePageFault ps v fd a = Inr c) \<longleftrightarrow> unat (a - startAddress state) < n" for a
    using assms by (simp add: serve_Inr_iff)
  have B: "\<not> unat (a - startAddress state) < n \<Longrightarrow>
            servePageFault ps v fd a = Inl (panic ''index out of range'')" for a
    using assms by (simp add: serve_Inl_iff)
  have C: "n < 2 ^ 64 \<Longrightarrow>
      servePageFault ps v fd (startAddress state + of_nat n) = Inl (panic ''index out of range'')"
    using B[of "startAddress state + of_nat n"] off_end[of n "startAddress state"] by simp
  have D: "0 < unat ps \<and> unat ps \<le> n \<and> n < 2 ^ 64 \<Longrightarrow>
      \<exists>c. servePageFault ps v fd (startAddress state + of_nat n - ps) = Inr c"
    using A[of "startAddress state + of_nat n - ps"] off_last_page[of ps n "startAddress state"]
    by simp
  have E: "unat ps dvd unat (address - startAddress state) \<Longrightarrow> unat ps dvd n \<Longrightarrow>
           \<exists>c. servePageFault ps v fd address = Inr c \<Longrightarrow>
           unat (address - startAddress state) + unat ps \<le> n"
    using A[of address] off_dvd[of ps "address - startAddress state" n] by simp
  show ?thesis
    using A[of address] B[of address] C D E by blast
qed

text \<open>
  Claim C2, as stated, fails: a fault in the last page of the mapping that is not
  page-aligned is served although \<open>offset + pageSize\<close> exceeds \<open>guestMemSize\<close>.  With a page
  size of 4096, a mapping of 8192 bytes and the base latched at \<open>0x10000000\<close>, the fault at
  \<open>0x10001FFF\<close> has offset 8191 and the install is issued for it.
\<close>

theorem servePageFault_last_page_counterexample:
  "servePageFault 4096 vm1_active 5 0x10001FFF =
     Inr \<lparr>ioctl_fd = 5, copy_mode = 0, copy_copy = 0, copy_src = 0x7F0000001FFF,
          copy_dst = 0x10001000, copy_len = 4096\<rparr> \<and>
   \<not> unat ((0x10001FFF :: uint64) - startAddress vm1_state) + unat (4096 :: uint64)
       \<le> nat (guestMemSize vm1_state)"
  by (simp add: serve_Inr_iff example_defs)

text \<open>
  Claim C2, amended.  The bound that the code enforces is that of the slice index: a fault
  on an active state whose mapping has \<open>guestMemSize\<close> bytes is served exactly when its
  offset \<open>address - startAddress\<close>, taken modulo \<open>2 ^ 64\<close>, is below \<open>guestMemSize\<close>; any
  other fault ends in the index panic and no install is issued.  So the fault at
  \<open>base + guestMemSize\<close> is fatal and the fault at \<open>base + guestMemSize - pageSize\<close> is
  served.  Where the offset and \<open>guestMemSize\<close> are multiples of the page size, a served
  fault also satisfies \<open>offset + pageSize \<le> guestMemSize\<close>.  The hypothesis on the length
  of the mapping holds for every state that \<open>AddInstance\<close> has made active.
\<close>

theorem servePageFault_offset_bound:
  assumes "activeFdState v fd = Some state"
    and "slice_len (guestMem state) = nat (guestMemSize state)"
  shows "((\<exists>c. servePageFault ps v fd address = Inr c) \<longleftrightarrow>
            unat (address - startAddress state) < nat (guestMemSize state)) \<and>
         (\<not> unat (address - startAddress state) < nat (guestMemSize state) \<longrightarrow>
            servePageFault ps v fd address = Inl (panic ''index out of range'')) \<and>
         (nat (guestMemSize state) < 2 ^ 64 \<longrightarrow>
            servePageFault ps v fd (startAddress state + of_nat (nat (guestMemSize state))) =
              Inl (panic ''index out of range'')) \<and>
         (0 < unat ps \<and> unat ps \<le> nat (guestMemSize state) \<and>
          nat (guestMemSize state) < 2 ^ 64 \<longrightarrow>
            (\<exists>c. servePageFault ps v fd
                    (startAddress state + of_nat (nat (guestMemSize state)) - ps) = Inr c)) \<and>
         (unat ps dvd unat (address - startAddress state) \<and>
          unat ps dvd nat (guestMemSize state) \<and>
          (\<exists>c. servePageFault ps v fd address = Inr c) \<longrightarrow>
            unat (address - startAddress state) + unat ps \<le> nat (guestMemSize state))"
  by (rule serve_bounds[OF assms])

theorem servePageFault_offset_bound_witness:
  "activeFdState vm1_active 5 = Some vm1_state \<and>
   slice_len (guestMem vm1_state) = nat (guestMemSize vm1_state) \<and>
   servePageFault 4096 vm1_active 5 (0x10000000 + 8192) = Inl (panic ''index out of range'') \<and>
   (\<exists>c. servePageFault 4096 vm1_active 5 (0x10000000 + 8192 - 4096) = Inr c) \<and>
   unat ((0x10001000 :: uint64) - 0x10000000) + unat (4096 :: uint64) \<le> 8192"
proof -
  have h1: "activeFdState vm1_active 5 = Some vm1_state"
    by (simp add: example_defs)
  have h2: "slice_len (guestMem vm1_state) = nat (guestMemSize vm1_state)"
    by (simp add: example_defs)
  have s: "startAddress vm1_state = 0x10000000" "nat (guestMemSize vm1_state) = 8192"
    by (simp_all add: example_defs)
  have served: "\<exists>c. servePageFault 4096 vm1_active 5 0x10001000 = Inr c"
    by (simp add: serve_Inr_iff example_defs)
  from servePageFault_offset_bound[OF h1 h2, of 4096 "0x10001000"] served
  have "servePageFault 4096 vm1_active 5 (0x10000000 + 8192) = Inl (panic ''index out of range'') \<and>
        (\<exists>c. servePageFault 4096 vm1_active 5 (0x10000000 + 8192 - 4096) = Inr c) \<and>
        unat ((0x10001000 :: uint64) - 0x10000000) + unat (4096 :: uint64) \<le> 8192"
    unfolding s by simp
  with h1 h2 show ?thesis by blast
qed

text \<open>
  Claim C10.  The offset is the 64-bit difference \<open>address - startAddress\<close> with
  wrap-around.  For a fault below the latched base it is
  \<open>2 ^ 64 - (startAddress - address)\<close>, a positive value, and \<open>servePageFault\<close> does not reject
  the fault for being below the base: the only test is the comparison of that value with the
  length of the mapping.
\<close>

theorem servePageFault_offset_wraps:
  assumes "activeFdState v fd = Some state"
    and "address < startAddress state"
  shows "int (unat (address - startAddress state)) =
           (uint address - uint (startAddress state)) mod 2 ^ 64 \<and>
         unat (address - startAddress state) =
           2 ^ 64 - (unat (startAddress state) - unat address) \<and>
         0 < unat (address - startAddress state) \<and>
         servePageFault ps v fd address =
           (if unat (address - startAddress state) < slice_len (guestMem state)
            then Inr \<lparr>ioctl_fd = fd, copy_mode = 0, copy_copy = 0,
                     copy_src = slice_ptr (guestMem state) + (address - startAddress state),
                     copy_dst = address AND NOT (ps - 1), copy_len = ps\<rparr>
            else Inl (panic ''index out of range''))"
proof -
  have 1: "int (unat (address - startAddress state)) =
      (uint address - uint (startAddress state)) mod 2 ^ 64"
    by (simp add: uint_word_ariths)
  have 2: "unat (address - startAddress state) =
      2 ^ 64 - (unat (startAddress state) - unat address)"
    using assms(2) by (simp add: unat_sub_if' word_less_nat_alt)
  have 3: "0 < unat (address - startAddress state)"
    using assms(2) by (simp add: unat_gt_0)
  have 4: "servePageFault ps v fd address =
           (if unat (address - startAddress state) < slice_len (guestMem state)
            then Inr \<lparr>ioctl_fd = fd, copy_mode = 0, copy_copy = 0,
                     copy_src = slice_ptr (guestMem state) + (address - startAddress state),
                     copy_dst = address AND NOT (ps - 1), copy_len = ps\<rparr>
            else Inl (panic ''index out of range''))"
    using assms(1) by (simp add: serve_Inr_iff serve_Inl_iff)
  show ?thesis using 1 2 3 4 by blast
qed

theorem servePageFault_offset_wraps_witness:
  "activeFdState high_active 5 = Some high_state \<and>
   (0 :: uint64) < startAddress high_state \<and>
   unat ((0 :: uint64) - startAddress high_state) = 4096 \<and>
   servePageFault 4096 high_active 5 0 =
     Inr \<lparr>ioctl_fd = 5, copy_mode = 0, copy_copy = 0, copy_src = 0x7F0000001000,
          copy_dst = 0, copy_len = 4096\<rparr>"
proof -
  have h1: "activeFdState high_active 5 = Some high_state"
    by (simp add: example_defs)
  have h2: "(0 :: uint64) < startAddress high_state"
    by (simp add: example_defs)
  have s: "startAddress high_state = 0xFFFFFFFFFFFFF000"
      "guestMem high_state = \<lparr>slice_ptr = 0x7F0000000000, slice_len = 8192\<rparr>"
    by (simp_all add: example_defs)
  from servePageFault_offset_wraps[OF h1 h2, of 4096]
  have "unat ((0 :: uint64) - startAddress high_state) = 4096 \<and>
        servePageFault 4096 high_active 5 0 =
          Inr \<lparr>ioctl_fd = 5, copy_mode = 0, copy_copy = 0, copy_src = 0x7F0000001000,
               copy_dst = 0, copy_len = 4096\<rparr>"
    unfolding s by simp
  with h1 h2 show ?thesis by blast
qed

section \<open>Reading a fault message\<close>

lemma extract_error:
  "extractPageFaultAddress K (read_error e) = Inl (log_Fatalf ''Read uffd_msg failed'')"
  by (simp add: extractPageFaultAddress_def syscall_Read_def)

lemma extract_short:
  "length d < sizeof_struct_uffd_msg K \<Longrightarrow>
   extractPageFaultAddress K (read_bytes d) = Inl (log_Fatalf ''Read uffd_msg failed'')"
  by (simp add: extractPageFaultAddress_def syscall_Read_def)

lemma extract_full:
  assumes "sizeof_struct_uffd_msg K \<le> length d" "24 \<le> sizeof_struct_uffd_msg K"
  shows "extractPageFaultAddress K (read_bytes d) =
     (if d ! 0 \<noteq> const_UFFD_EVENT_PAGEFAULT K then Inl (log_Fatalf ''Received wrong event type'')
      else LittleEndian_Uint64 (drop 16 (take (sizeof_struct_uffd_msg K) d)))"
  using assms by (simp add: extractPageFaultAddress_def syscall_Read_def min_def)

lemma le_byte:
  fixes b :: "byte list"
  assumes "8 \<le> length b" "LittleEndian_Uint64 b = Inr a" "i < 8"
  shows "(ucast (drop_bit (8 * i) a) :: byte) = b ! i"
proof -
  have a: "a = ucast (b ! 0) OR push_bit 8 (ucast (b ! 1)) OR push_bit 16 (ucast (b ! 2))
                OR push_bit 24 (ucast (b ! 3)) OR push_bit 32 (ucast (b ! 4))
                OR push_bit 40 (ucast (b ! 5)) OR push_bit 48 (ucast (b ! 6))
                OR push_bit 56 (ucast (b ! 7))"
    using assms(1,2) by (simp add: LittleEndian_Uint64_def)
  have "i \<in> {0, 1, 2, 3, 4, 5, 6, 7}"
    using assms(3) by auto
  then show ?thesis
    unfolding a
    by (elim insertE emptyE; hypsubst; intro bit_eqI;
        auto simp: bit_simps dest: bit_imp_le_length)
qed

text \<open>
  Claim C8.  With a message size of at least 24 bytes, \<open>extractPageFaultAddress\<close> ends
  fatally exactly when the read returns an error, delivers fewer bytes than the message size,
  or byte 0 of the message is not the page-fault event kind.  In every other case it returns
  an address whose byte \<open>i\<close>, for \<open>i\<close> from 0 to 7, is byte \<open>16 + i\<close> of the message: the
  little-endian reading of bytes 16 to 23.
\<close>

theorem extractPageFaultAddress_fatal_iff:
  assumes "24 \<le> sizeof_struct_uffd_msg K"
  shows "((\<exists>f. extractPageFaultAddress K r = Inl f) \<longleftrightarrow>
            (case r of
               read_error e \<Rightarrow> True
             | read_bytes d \<Rightarrow>
                 length d < sizeof_struct_uffd_msg K \<or> d ! 0 \<noteq> const_UFFD_EVENT_PAGEFAULT K)) \<and>
         (\<forall>a. extractPageFaultAddress K r = Inr a \<longrightarrow>
            (\<exists>d. r = read_bytes d \<and>
                 (\<forall>i<8. (ucast (drop_bit (8 * i) a) :: byte) = d ! (16 + i))))"
proof (cases r)
  case (read_error e)
  then show ?thesis by (simp add: extract_error)
next
  case (read_bytes d)
  show ?thesis
  proof (cases "length d < sizeof_struct_uffd_msg K")
    case True
    then show ?thesis using read_bytes by (simp add: extract_short)
  next
    case False
    let ?b = "drop 16 (take (sizeof_struct_uffd_msg K) d)"
    have len: "8 \<le> length ?b" using False assms by simp
    have nth: "?b ! i = d ! (16 + i)" if "i < 8" for i
      using that False assms by simp
    have ex: "extractPageFaultAddress K r =
       (if d ! 0 \<noteq> const_UFFD_EVENT_PAGEFAULT K then Inl (log_Fatalf ''Received wrong event type'')
        else LittleEndian_Uint64 ?b)"
      using False assms read_bytes by (simp add: extract_full)
    have ok: "\<exists>a. LittleEndian_Uint64 ?b = Inr a"
      using len by (simp add: LittleEndian_Uint64_def)
    have bytes: "\<forall>i<8. (ucast (drop_bit (8 * i) a) :: byte) = d ! (16 + i)"
      if "LittleEndian_Uint64 ?b = Inr a" for a
      using le_byte[OF len that] nth by simp
    show ?thesis
    proof (cases "d ! 0 = const_UFFD_EVENT_PAGEFAULT K")
      case True
      then show ?thesis using ex ok bytes read_bytes False by auto
    next
      case F: False
      then show ?thesis using ex read_bytes False by simp
    qed
  qed
qed

lemma extract_fault_message:
  "extractPageFaultAddress linux_constants (read_bytes (fault_message 0x10001234)) =
     Inr 0x10001234"
  by (simp add: fault_message_def extractPageFaultAddress_def syscall_Read_def
      LittleEndian_Uint64_def linux_constants_def)

theorem extractPageFaultAddress_fatal_iff_witness:
  "24 \<le> sizeof_struct_uffd_msg linux_constants \<and>
   extractPageFaultAddress linux_constants (read_bytes (fault_message 0x10001234)) =
     Inr 0x10001234 \<and>
   (\<exists>f. extractPageFaultAddress linux_constants (read_error 11) = Inl f) \<and>
   (\<exists>f. extractPageFaultAddress linux_constants (read_bytes [0x12, 0, 0]) = Inl f) \<and>
   (ucast (drop_bit (8 * 1) (0x10001234 :: uint64)) :: byte) = fault_message 0x10001234 ! (16 + 1)"
proof -
  have h: "24 \<le> sizeof_struct_uffd_msg linux_constants"
    by (simp add: linux_constants_def)
  have e1: "\<exists>f. extractPageFaultAddress linux_constants (read_error 11) = Inl f"
    using extractPageFaultAddress_fatal_iff[OF h, of "read_error 11"] by simp
  have e2: "\<exists>f. extractPageFaultAddress linux_constants (read_bytes [0x12, 0, 0]) = Inl f"
    using extractPageFaultAddress_fatal_iff[OF h, of "read_bytes [0x12, 0, 0]"]
    by (simp add: linux_constants_def)
  have e3: "(ucast (drop_bit (8 * 1) (0x10001234 :: uint64)) :: byte) =
      fault_message 0x10001234 ! (16 + 1)"
    using extractPageFaultAddress_fatal_iff[OF h, of "read_bytes (fault_message 0x10001234)"] extract_fault_message
    by (simp add: fault_message_def)
  show ?thesis using h extract_fault_message e1 e2 e3 by blast
qed

section \<open>The polling loop: latching and reads\<close>

lemma Do_latched: "startAddressOnce st \<Longrightarrow> startAddressOnce_Do st a = st"
  by (simp add: startAddressOnce_Do_def)

lemma foldl_Do_latched: "startAddressOnce st \<Longrightarrow> foldl startAddressOnce_Do st as = st"
  by (induction as) (simp_all add: Do_latched)

lemma foldl_Do_first:
  "\<not> startAddressOnce st \<Longrightarrow>
   foldl startAddressOnce_Do st (a # as) = st\<lparr>startAddress := a, startAddressOnce := True\<rparr>"
  by (simp add: startAddressOnce_Do_def foldl_Do_latched)

lemma foldl_Do_cases:
  "foldl startAddressOnce_Do st fs =
     (if startAddressOnce st then st
      else case fs of [] \<Rightarrow> st | a # _ \<Rightarrow> st\<lparr>startAddress := a, startAddressOnce := True\<rparr>)"
  by (cases fs) (auto simp: foldl_Do_latched startAddressOnce_Do_def)

lemma faults_on_append: "faults_on fd (tr @ tr') = faults_on fd tr @ faults_on fd tr'"
  by (induction fd tr rule: faults_on.induct) simp_all

lemma reads_append: "reads (tr @ tr') = reads tr + reads tr'"
  by (induction tr rule: reads.induct) simp_all

lemma latched_by_refl: "latched_by v [] v"
  by (simp add: latched_by_def option.map_ident)

lemma latched_by_trans:
  "latched_by v tr v' \<Longrightarrow> latched_by v' tr' v'' \<Longrightarrow> latched_by v (tr @ tr') v''"
  by (simp add: latched_by_def faults_on_append option.map_comp comp_def)

lemma serveEvent_latched:
  "serveEvent K rd v e = (r, v', tr) \<Longrightarrow> latched_by v tr v'"
  by (auto simp: serveEvent_def getSnapshotState_def Let_def latched_by_def option.map_ident
      split: option.splits sum.splits)

lemma serveEvents_latched:
  "serveEvents K rds n v es = (r, v', tr) \<Longrightarrow> latched_by v tr v'"
proof (induction es arbitrary: n v r v' tr)
  case Nil
  then show ?case by (simp add: latched_by_refl)
next
  case (Cons e es)
  obtain r1 v1 tr1 where s1: "serveEvent K (rds n (Fd e)) v e = (r1, v1, tr1)"
    by (cases "serveEvent K (rds n (Fd e)) v e") auto
  have l1: "latched_by v tr1 v1" using s1 by (rule serveEvent_latched)
  show ?case
  proof (cases r1)
    case None
    obtain r2 v2 tr2 where s2: "serveEvents K rds (Suc n) v1 es = (r2, v2, tr2)"
      by (cases "serveEvents K rds (Suc n) v1 es") auto
    have "latched_by v1 tr2 v2" using s2 by (rule Cons.IH)
    moreover have "v' = v2" "tr = tr1 @ tr2" using Cons.prems s1 s2 None by simp_all
    ultimately show ?thesis using l1 by (simp add: latched_by_trans)
  next
    case (Some f)
    then have "v' = v1" "tr = tr1" using Cons.prems s1 by simp_all
    then show ?thesis using l1 by simp
  qed
qed

lemma wake_latched:
  "wake K v events w = (r, v', events', tr) \<Longrightarrow> latched_by v tr v'"
  by (auto simp: wake_def latched_by_refl split: prod.splits if_splits dest: serveEvents_latched)

lemma loop_latched:
  "loop K v events ws = (r, v', tr) \<Longrightarrow> latched_by v tr v'"
proof (induction ws arbitrary: v events r v' tr)
  case Nil
  then show ?case by (simp add: latched_by_refl)
next
  case (Cons w ws)
  obtain r1 v1 ev1 tr1 where s1: "wake K v events w = (r1, v1, ev1, tr1)"
    by (cases "wake K v events w") auto
  have l1: "latched_by v tr1 v1" using s1 by (rule wake_latched)
  show ?case
  proof (cases r1)
    case None
    obtain r2 v2 tr2 where s2: "loop K v1 ev1 ws = (r2, v2, tr2)"
      by (cases "loop K v1 ev1 ws") auto
    have "latched_by v1 tr2 v2" using s2 by (rule Cons.IH)
    moreover have "v' = v2" "tr = tr1 @ tr2" using Cons.prems s1 s2 None by simp_all
    ultimately show ?thesis using l1 by (simp add: latched_by_trans)
  next
    case (Some f)
    then have "v' = v1" "tr = tr1" using Cons.prems s1 by simp_all
    then show ?thesis using l1 by simp
  qed
qed

lemma pollingLoop_latched:
  "pollingLoop K created v ws = (r, v', tr) \<Longrightarrow>
   (\<forall>fd. activeFdState v' fd =
        map_option (\<lambda>st. foldl startAddressOnce_Do st (faults_on fd tr)) (activeFdState v fd))"
  by (auto simp: pollingLoop_def latched_by_def option.map_ident split: sum.splits dest!: loop_latched)

lemma serveEvent_reads:
  "serveEvent K rd v e = (None, v', tr) \<Longrightarrow> reads tr = 1"
  by (auto simp: serveEvent_def getSnapshotState_def Let_def split: option.splits sum.splits)

lemma serveEvents_reads:
  "serveEvents K rds n v es = (None, v', tr) \<Longrightarrow> reads tr = length es"
proof (induction es arbitrary: n v v' tr)
  case Nil
  then show ?case by simp
next
  case (Cons e es)
  obtain r1 v1 tr1 where s1: "serveEvent K (rds n (Fd e)) v e = (r1, v1, tr1)"
    by (cases "serveEvent K (rds n (Fd e)) v e") auto
  obtain r2 v2 tr2 where s2: "serveEvents K rds (Suc n) v1 es = (r2, v2, tr2)"
    by (cases "serveEvents K rds (Suc n) v1 es") auto
  have r1: "r1 = None" using Cons.prems s1 by (cases r1) simp_all
  then have "r2 = None" "tr = tr1 @ tr2" using Cons.prems s1 s2 by simp_all
  then show ?case using Cons.IH[of "Suc n" v1 v2 tr2] s2 serveEvent_reads[of K _ v e v1 tr1] s1 r1
    by (simp add: reads_append)
qed

lemma wake_reads:
  "wake K v events w = (None, v', events', tr) \<Longrightarrow> reads tr = length events"
  by (auto simp: wake_def syscall_EpollWait_def Let_def split: prod.splits if_splits wait_outcome.splits
      dest!: serveEvents_reads)


lemma array_after_one_event:
  "syscall_EpollWait (replicate 1000 zero_event) (wait_ready [e]) =
     (1, None, e # zero_event # replicate 998 zero_event)"
proof -
  have "replicate 999 zero_event = zero_event # replicate 998 zero_event"
    by (simp add: replicate_Suc[symmetric] del: replicate_Suc)
  then show ?thesis
    by (simp add: syscall_EpollWait_def)
qed


lemma pageSize_linux: "pageSize linux_constants = 4096"
  by (simp add: linux_constants_def)

lemma Fd_zero_event: "Fd zero_event = 0"
  by (simp add: zero_event_def)

lemma extract_fault_message2:
  "extractPageFaultAddress linux_constants (read_bytes (fault_message 0x10001000)) =
     Inr 0x10001000"
  by (simp add: fault_message_def extractPageFaultAddress_def syscall_Read_def
      LittleEndian_Uint64_def linux_constants_def)

lemma first_wake:
  "pollingLoop linux_constants (Inr 3) vm1_unlatched [one_event 0x10001234] =
     (Some (log_Fatalf ''received event from file which is not active''),
      vm1_active\<lparr>activeFdState := [5 \<mapsto> vm1_state\<lparr>startAddress := 0x10001234\<rparr>]\<rparr>,
      [act_fault 5 0x10001234,
       act_copy \<lparr>ioctl_fd = 5, copy_mode = 0, copy_copy = 0, copy_src = 0x7F0000000000,
                 copy_dst = 0x10001000, copy_len = 4096\<rparr>])"
  by (simp add: pollingLoop_def wake_def one_event_def array_after_one_event serveEvent_def
      extract_fault_message getSnapshotState_def startAddressOnce_Do_def serve_Inr_iff
      servePageFault_def index_addr_def installRegion_def Fd_zero_event
      vm1_unlatched_def vm1_active_def vm1_state_def pageSize_linux)

text \<open>
  Claim C4.  Over any run of the polling loop, the state that is active under a descriptor
  changes in one way only: if it was not latched and an address was read on the descriptor,
  its \<open>startAddress\<close> becomes the first such address and it is latched; a latched state is
  left as it is by every further \<open>Do\<close>, and so is a state on whose descriptor nothing was
  read.
\<close>

theorem startAddress_latched_once:
  assumes "pollingLoop K created v ws = (r, v', tr)"
    and "activeFdState v fd = Some state"
  shows "(\<forall>a. startAddressOnce state \<longrightarrow> startAddressOnce_Do state a = state) \<and>
         activeFdState v' fd =
           Some (if startAddressOnce state then state
                 else case faults_on fd tr of
                        [] \<Rightarrow> state
                      | a # _ \<Rightarrow> state\<lparr>startAddress := a, startAddressOnce := True\<rparr>)"
proof -
  have "activeFdState v' fd = Some (foldl startAddressOnce_Do state (faults_on fd tr))"
    using pollingLoop_latched[OF assms(1)] assms(2) by simp
  then show ?thesis
    by (simp add: foldl_Do_cases Do_latched)
qed

theorem startAddress_latched_once_witness:
  "pollingLoop linux_constants (Inr 3) vm1_unlatched [one_event 0x10001234] =
     (Some (log_Fatalf ''received event from file which is not active''),
      vm1_active\<lparr>activeFdState := [5 \<mapsto> vm1_state\<lparr>startAddress := 0x10001234\<rparr>]\<rparr>,
      [act_fault 5 0x10001234,
       act_copy \<lparr>ioctl_fd = 5, copy_mode = 0, copy_copy = 0, copy_src = 0x7F0000000000,
                 copy_dst = 0x10001000, copy_len = 4096\<rparr>]) \<and>
   activeFdState vm1_unlatched 5 =
     Some (vm1_state\<lparr>startAddress := 0, startAddressOnce := False\<rparr>) \<and>
   activeFdState
     (vm1_active\<lparr>activeFdState := [5 \<mapsto> vm1_state\<lparr>startAddress := 0x10001234\<rparr>]\<rparr>) 5 =
     Some (vm1_state\<lparr>startAddress := 0x10001234, startAddressOnce := True\<rparr>)"
proof -
  have h2: "activeFdState vm1_unlatched 5 =
      Some (vm1_state\<lparr>startAddress := 0, startAddressOnce := False\<rparr>)"
    by (simp add: vm1_unlatched_def)
  from startAddress_latched_once[OF first_wake h2]
  have "activeFdState
     (vm1_active\<lparr>activeFdState := [5 \<mapsto> vm1_state\<lparr>startAddress := 0x10001234\<rparr>]\<rparr>) 5 =
     Some (vm1_state\<lparr>startAddress := 0x10001234, startAddressOnce := True\<rparr>)"
    by simp
  with first_wake h2 show ?thesis by blast
qed

text \<open>
  Claim C9 says that a wake makes one read for each ready event that \<open>epoll_wait\<close> reports
  and none for anything else.  The loop ranges over the whole array instead of its first
  \<open>nevents\<close> elements.  On the first wake, with one ready event on the active descriptor 5
  whose read delivers a page fault, the fault is served and the loop goes on to element 1 of
  the array, which is zero and names descriptor 0; that descriptor is not active and the
  process ends.
\<close>

theorem wake_one_ready_event_fatal:
  "wake linux_constants vm1_active (replicate 1000 zero_event) (one_event 0x10001000) =
     (Some (log_Fatalf ''received event from file which is not active''),
      vm1_active,
      \<lparr>Events = 1, Fd = 5\<rparr> # zero_event # replicate 998 zero_event,
      [act_fault 5 0x10001000,
       act_copy \<lparr>ioctl_fd = 5, copy_mode = 0, copy_copy = 0, copy_src = 0x7F0000001000,
                 copy_dst = 0x10001000, copy_len = 4096\<rparr>])"
  by (simp add: wake_def one_event_def array_after_one_event serveEvent_def
      extract_fault_message2 getSnapshotState_def startAddressOnce_Do_def
      servePageFault_def index_addr_def installRegion_def Fd_zero_event
      vm1_active_def vm1_state_def pageSize_linux)

section \<open>The registry: invariants and error returns\<close>

lemma RegisterVM_exclusive: "exclusive v \<Longrightarrow> exclusive (fst (snd (RegisterVM v cfg)))"
  by (auto simp: exclusive_def RegisterVM_def Let_def)

lemma AddInstance_exclusive: "exclusive v \<Longrightarrow> exclusive (fst (snd (AddInstance env v vmID)))"
  by (auto simp: exclusive_def AddInstance_def Let_def split: option.splits prod.splits)

lemma RemoveInstance_exclusive_result:
  "exclusive v \<Longrightarrow>
   RemoveInstance env v vmID =
     (Some (errors_New (if inactive v vmID = None
                        then ''VM not registered with the memory manager''
                        else ''Failed to find fd'')), v, [])"
proof -
  assume "exclusive v"
  then have "inactive v vmID = None \<or> activeVmFd v vmID = None"
    by (simp add: exclusive_def)
  then show ?thesis
    by (auto simp: RemoveInstance_def)
qed

lemma perform_exclusive: "exclusive v \<Longrightarrow> exclusive (fst (snd (perform v c)))"
  by (cases c)
     (simp_all add: RegisterVM_exclusive AddInstance_exclusive RemoveInstance_exclusive_result
        FetchState_def)

lemma after_exclusive: "exclusive v \<Longrightarrow> exclusive (after v ops)"
  unfolding after_def
  by (induction ops arbitrary: v) (simp_all add: perform_exclusive)

lemma exclusive_New: "exclusive NewMemoryManager"
  by (simp add: exclusive_def NewMemoryManager_def)

text \<open>
  Claim C3.  Starting from the new manager, after any sequence of calls of \<open>RegisterVM\<close>,
  \<open>AddInstance\<close>, \<open>RemoveInstance\<close> and \<open>FetchState\<close>, with any answers of the environment,
  no identifier is a key of both \<open>inactive\<close> and \<open>activeVmFd\<close>.
\<close>

theorem inactive_active_exclusive: "exclusive (after NewMemoryManager ops) \<and>
   (\<forall>vmID. \<not> (vmID \<in> dom (inactive (after NewMemoryManager ops)) \<and>
                vmID \<in> dom (activeVmFd (after NewMemoryManager ops))))"
proof -
  have e: "exclusive (after NewMemoryManager ops)"
    using exclusive_New by (rule after_exclusive)
  have "\<not> (vmID \<in> dom (inactive (after NewMemoryManager ops)) \<and>
            vmID \<in> dom (activeVmFd (after NewMemoryManager ops)))" for vmID
  proof -
    from e have "inactive (after NewMemoryManager ops) vmID = None \<or>
        activeVmFd (after NewMemoryManager ops) vmID = None"
      by (simp add: exclusive_def)
    then show ?thesis by auto
  qed
  then show ?thesis using e by simp
qed

theorem inactive_active_exclusive_witness:
  "exclusive (after NewMemoryManager [op_RegisterVM vm1_cfg, op_AddInstance vm1_env ''vm1'']) \<and>
   \<not> (''vm1'' \<in> dom (inactive
          (after NewMemoryManager [op_RegisterVM vm1_cfg, op_AddInstance vm1_env ''vm1''])) \<and>
      ''vm1'' \<in> dom (activeVmFd
          (after NewMemoryManager [op_RegisterVM vm1_cfg, op_AddInstance vm1_env ''vm1''])))"
  using inactive_active_exclusive[of "[op_RegisterVM vm1_cfg, op_AddInstance vm1_env ''vm1'']"]
  by blast

text \<open>Every state that the registry operations make active has a mapping of exactly
  \<open>guestMemSize\<close> bytes, which is the hypothesis on the state in the bound on served
  offsets.\<close>

lemma AddInstance_mapped:
  assumes "\<forall>fd st. activeFdState v fd = Some st \<longrightarrow>
             slice_len (guestMem st) = nat (guestMemSize st)"
  shows "\<forall>fd st. activeFdState (fst (snd (AddInstance env v vmID))) fd = Some st \<longrightarrow>
           slice_len (guestMem st) = nat (guestMemSize st)"
  using assms
  by (auto simp: AddInstance_def mapGuestMemory_def getUFFD_def Let_def
      split: option.splits mmap_outcome.splits uffd_outcome.splits if_splits)

lemma perform_mapped:
  assumes "exclusive v"
    and "\<forall>fd st. activeFdState v fd = Some st \<longrightarrow>
           slice_len (guestMem st) = nat (guestMemSize st)"
  shows "\<forall>fd st. activeFdState (fst (snd (perform v c))) fd = Some st \<longrightarrow>
           slice_len (guestMem st) = nat (guestMemSize st)"
proof (cases c)
  case (op_RegisterVM cfg)
  then show ?thesis using assms(2) by (simp add: RegisterVM_def Let_def)
next
  case (op_AddInstance env vmID)
  then show ?thesis using AddInstance_mapped[OF assms(2)] by simp
next
  case (op_RemoveInstance env vmID)
  then show ?thesis using assms(2) RemoveInstance_exclusive_result[OF assms(1)] by simp
next
  case (op_FetchState vmID)
  then show ?thesis using assms(2) by (simp add: FetchState_def)
qed

lemma after_snoc: "after v (ops @ [c]) = fst (snd (perform (after v ops) c))"
  by (simp add: after_def)

lemma active_states_mapped:
  "activeFdState (after NewMemoryManager ops) fd = Some st \<Longrightarrow>
   slice_len (guestMem st) = nat (guestMemSize st)"
proof (induction ops arbitrary: fd st rule: rev_induct)
  case Nil
  then show ?case by (simp add: after_def NewMemoryManager_def)
next
  case (snoc c ops)
  have e: "exclusive (after NewMemoryManager ops)"
    using exclusive_New by (rule after_exclusive)
  have "\<forall>fd st. activeFdState (after NewMemoryManager ops) fd = Some st \<longrightarrow>
      slice_len (guestMem st) = nat (guestMemSize st)"
    using snoc.IH by blast
  from perform_mapped[OF e this, of c] snoc.prems show ?case
    by (simp add: after_snoc)
qed

lemma RegisterVM_fds: "fds_agree v \<Longrightarrow> fds_agree (fst (snd (RegisterVM v cfg)))"
  by (auto simp: fds_agree_def RegisterVM_def Let_def)

lemma AddInstance_fds: "fds_agree v \<Longrightarrow> fds_agree (fst (snd (AddInstance env v vmID)))"
  by (auto simp: fds_agree_def AddInstance_def Let_def split: option.splits prod.splits)

lemma perform_fds: "exclusive v \<Longrightarrow> fds_agree v \<Longrightarrow> fds_agree (fst (snd (perform v c)))"
  by (cases c)
     (simp_all add: RegisterVM_fds AddInstance_fds RemoveInstance_exclusive_result FetchState_def)

lemma RegisterVM_error: "RegisterVM v cfg = (Some err, v', calls) \<Longrightarrow> v' = v \<and> calls = []"
  by (auto simp: RegisterVM_def Let_def split: if_splits)

lemma mapGuestMemory_calls:
  "mapGuestMemory m s = (r, s', calls) \<Longrightarrow>
     (\<forall>x. sys_munmap x \<notin> set calls) \<and> (\<forall>n. sys_close n \<notin> set calls) \<and>
     (r = None \<longleftrightarrow> (\<exists>a. m = mapped a)) \<and>
     (\<forall>a. m = mapped a \<longrightarrow> s' = s\<lparr>guestMem := \<lparr>slice_ptr = a, slice_len = nat (guestMemSize s)\<rparr>\<rparr>)"
  by (auto simp: mapGuestMemory_def split: mmap_outcome.splits)

lemma AddInstance_activates:
  assumes "inactive v vmID = Some state" "activeVmFd v vmID = None" "env_mmap env = mapped a"
  shows "AddInstance env v vmID =
     (map_option Errno (env_epoll_add env),
      v\<lparr>inactive := (inactive v)(vmID := None),
        activeVmFd := (activeVmFd v)(vmID \<mapsto>
           UserFaultFD (getUFFD (env_uffd env) state)),
        activeFdState := (activeFdState v)(UserFaultFD (getUFFD (env_uffd env) state) \<mapsto>
           getUFFD (env_uffd env)
             (state\<lparr>guestMem := \<lparr>slice_ptr = a, slice_len = nat (guestMemSize state)\<rparr>\<rparr>))\<rparr>,
      [sys_open (guestMemFileName state), sys_mmap (guestMemSize state), sys_recv_uffd,
       sys_epoll_ctl_add (epfd v) (UserFaultFD (getUFFD (env_uffd env) state))])"
  using assms
  by (auto simp: AddInstance_def Let_def mapGuestMemory_def getUFFD_def
      split: option.splits uffd_outcome.splits)


lemma registered:
  "after NewMemoryManager [op_RegisterVM vm1_cfg] =
     \<lparr>inactive = [''vm1'' \<mapsto> NewSnapshotState vm1_cfg], activeFdState = Map.empty,
      activeVmFd = Map.empty, epfd = 0\<rparr>"
  by (simp add: after_def RegisterVM_def NewMemoryManager_def vm1_cfg_def)

lemma added:
  "AddInstance vm1_env (after NewMemoryManager [op_RegisterVM vm1_cfg]) ''vm1'' =
     (None,
      \<lparr>inactive = Map.empty,
       activeFdState = [5 \<mapsto> vm1_state\<lparr>startAddress := 0, startAddressOnce := False\<rparr>],
       activeVmFd = [''vm1'' \<mapsto> 5], epfd = 0\<rparr>,
      [sys_open ''/snap/vm1.mem'', sys_mmap 8192, sys_recv_uffd, sys_epoll_ctl_add 0 5])"
  unfolding registered
  by (simp add: AddInstance_def mapGuestMemory_def getUFFD_def NewSnapshotState_def Let_def
      vm1_cfg_def vm1_env_def vm1_state_def)

lemma add_epoll_failure:
  "AddInstance (vm1_env\<lparr>env_epoll_add := Some 28\<rparr>)
       (after NewMemoryManager [op_RegisterVM vm1_cfg]) ''vm1'' =
     (Some (Errno 28),
      \<lparr>inactive = Map.empty,
       activeFdState = [5 \<mapsto> vm1_state\<lparr>startAddress := 0, startAddressOnce := False\<rparr>],
       activeVmFd = [''vm1'' \<mapsto> 5], epfd = 0\<rparr>,
      [sys_open ''/snap/vm1.mem'', sys_mmap 8192, sys_recv_uffd, sys_epoll_ctl_add 0 5])"
  unfolding registered
  by (simp add: AddInstance_def mapGuestMemory_def getUFFD_def NewSnapshotState_def Let_def
      vm1_cfg_def vm1_env_def vm1_state_def)

lemma add_uffd_failure:
  "AddInstance (vm1_env\<lparr>env_uffd := uffd_failed\<rparr>)
       (after NewMemoryManager [op_RegisterVM vm1_cfg]) ''vm1'' =
     (None,
      \<lparr>inactive = Map.empty,
       activeFdState =
         [- 1 \<mapsto> vm1_state\<lparr>startAddress := 0, startAddressOnce := False, UserFaultFD := - 1\<rparr>],
       activeVmFd = [''vm1'' \<mapsto> - 1], epfd = 0\<rparr>,
      [sys_open ''/snap/vm1.mem'', sys_mmap 8192, sys_recv_uffd, sys_epoll_ctl_add 0 (- 1)])"
  unfolding registered
  by (simp add: AddInstance_def mapGuestMemory_def getUFFD_def NewSnapshotState_def Let_def
      vm1_cfg_def vm1_env_def vm1_state_def)


lemma added_manager:
  "after NewMemoryManager [op_RegisterVM vm1_cfg, op_AddInstance vm1_env ''vm1''] =
     \<lparr>inactive = Map.empty,
      activeFdState = [5 \<mapsto> vm1_state\<lparr>startAddress := 0, startAddressOnce := False\<rparr>],
      activeVmFd = [''vm1'' \<mapsto> 5], epfd = 0\<rparr>"
proof -
  have "after NewMemoryManager [op_RegisterVM vm1_cfg, op_AddInstance vm1_env ''vm1''] =
      fst (snd (AddInstance vm1_env (after NewMemoryManager [op_RegisterVM vm1_cfg]) ''vm1''))"
    by (simp add: after_def)
  then show ?thesis unfolding added by simp
qed

text \<open>
  Claim C5 says that \<open>RemoveInstance\<close> fails exactly when the identifier has no entry in
  \<open>activeVmFd\<close>, with the error of the missing descriptor, and that the first removal after
  a registration and an activation succeeds.  The code tests \<open>inactive\<close> first: for \<open>vm1\<close>
  registered and activated, which \<open>AddInstance\<close> has taken out of \<open>inactive\<close>, the removal
  returns the error of an unregistered VM and removes nothing; the same error, not that of
  the missing descriptor, is returned on the new manager.
\<close>

theorem RemoveInstance_after_add_not_registered:
  "fst (RegisterVM NewMemoryManager vm1_cfg) = None \<and>
   fst (AddInstance vm1_env (after NewMemoryManager [op_RegisterVM vm1_cfg]) ''vm1'') = None \<and>
   activeVmFd (after NewMemoryManager [op_RegisterVM vm1_cfg, op_AddInstance vm1_env ''vm1''])
     ''vm1'' = Some 5 \<and>
   RemoveInstance remove_ok
     (after NewMemoryManager [op_RegisterVM vm1_cfg, op_AddInstance vm1_env ''vm1'']) ''vm1'' =
     (Some (errors_New ''VM not registered with the memory manager''),
      after NewMemoryManager [op_RegisterVM vm1_cfg, op_AddInstance vm1_env ''vm1''], []) \<and>
   RemoveInstance remove_ok NewMemoryManager ''vm1'' =
     (Some (errors_New ''VM not registered with the memory manager''), NewMemoryManager, [])"
proof -
  have 1: "fst (RegisterVM NewMemoryManager vm1_cfg) = None"
    by (simp add: RegisterVM_def NewMemoryManager_def Let_def)
  have 2: "fst (AddInstance vm1_env (after NewMemoryManager [op_RegisterVM vm1_cfg]) ''vm1'') = None"
    unfolding added by simp
  have 3: "activeVmFd (after NewMemoryManager [op_RegisterVM vm1_cfg, op_AddInstance vm1_env ''vm1''])
     ''vm1'' = Some 5"
    unfolding added_manager by simp
  have 4: "RemoveInstance remove_ok
     (after NewMemoryManager [op_RegisterVM vm1_cfg, op_AddInstance vm1_env ''vm1'']) ''vm1'' =
     (Some (errors_New ''VM not registered with the memory manager''),
      after NewMemoryManager [op_RegisterVM vm1_cfg, op_AddInstance vm1_env ''vm1''], [])"
    unfolding added_manager by (simp add: RemoveInstance_def)
  have 5: "RemoveInstance remove_ok NewMemoryManager ''vm1'' =
     (Some (errors_New ''VM not registered with the memory manager''), NewMemoryManager, [])"
    by (simp add: RemoveInstance_def NewMemoryManager_def)
  show ?thesis using 1 2 3 4 5 by blast
qed

lemma fds_agree_New: "fds_agree NewMemoryManager"
  by (simp add: fds_agree_def NewMemoryManager_def)

lemma AddInstance_late_error:
  assumes "AddInstance env v vmID = (Some err, v', calls)"
    and "inactive v vmID \<noteq> None" "activeVmFd v vmID = None" "env_mmap env = mapped a"
  shows "inactive v' vmID = None \<and>
         (\<exists>fd. activeVmFd v' vmID = Some fd \<and> activeFdState v' fd \<noteq> None) \<and>
         (\<forall>x. sys_munmap x \<notin> set calls) \<and> (\<forall>n. sys_close n \<notin> set calls)"
proof -
  obtain state where st: "inactive v vmID = Some state" using assms(2) by auto
  show ?thesis
    using assms(1) unfolding AddInstance_activates[OF st assms(3,4)] by auto
qed

lemma AddInstance_early_error:
  assumes "AddInstance env v vmID = (Some err, v', calls)"
    and "\<not> (inactive v vmID \<noteq> None \<and> activeVmFd v vmID = None \<and> (\<exists>a. env_mmap env = mapped a))"
  shows "activeVmFd v' = activeVmFd v \<and> activeFdState v' = activeFdState v \<and>
         dom (inactive v') = dom (inactive v) \<and>
         (\<forall>x. sys_munmap x \<notin> set calls) \<and> (\<forall>n. sys_close n \<notin> set calls)"
  using assms
  by (auto simp: AddInstance_def Let_def mapGuestMemory_def
      split: option.splits prod.splits if_splits mmap_outcome.splits)

text \<open>
  Claim C6, as stated, fails: when the epoll-add step of \<open>AddInstance\<close> fails, the error is
  returned with \<open>vm1\<close> in both active maps, and neither \<open>munmap\<close> nor \<open>close\<close> has been
  called.
\<close>

theorem AddInstance_epoll_failure_counterexample:
  "AddInstance (vm1_env\<lparr>env_epoll_add := Some 28\<rparr>)
       (after NewMemoryManager [op_RegisterVM vm1_cfg]) ''vm1'' =
     (Some (Errno 28),
      \<lparr>inactive = Map.empty,
       activeFdState = [5 \<mapsto> vm1_state\<lparr>startAddress := 0, startAddressOnce := False\<rparr>],
       activeVmFd = [''vm1'' \<mapsto> 5], epfd = 0\<rparr>,
      [sys_open ''/snap/vm1.mem'', sys_mmap 8192, sys_recv_uffd, sys_epoll_ctl_add 0 5])"
  by (rule add_epoll_failure)

text \<open>
  Claim C6, amended.  From a manager whose maps satisfy the invariants, every call that
  returns an error leaves them satisfied: no identifier is in both \<open>inactive\<close> and
  \<open>activeVmFd\<close>, and the descriptors of \<open>activeVmFd\<close> are the keys of \<open>activeFdState\<close>.  No
  error return has called \<open>munmap\<close> or \<open>close\<close>.  An error of \<open>RegisterVM\<close> or
  \<open>RemoveInstance\<close> leaves the manager as it was; an error of \<open>AddInstance\<close> raised before
  the epoll-add step leaves the two active maps and the keys of \<open>inactive\<close> as they were;
  when the epoll-add step fails, the error is returned with the VM out of \<open>inactive\<close> and in
  both active maps.
\<close>

theorem error_returns_keep_indices:
  assumes "exclusive v" and "fds_agree v"
    and "perform v c = (Some err, v', calls)"
  shows "exclusive v' \<and> fds_agree v' \<and>
         (\<forall>x. sys_munmap x \<notin> set calls) \<and> (\<forall>n. sys_close n \<notin> set calls) \<and>
         (case c of
            op_AddInstance env vmID \<Rightarrow>
              if inactive v vmID \<noteq> None \<and> activeVmFd v vmID = None \<and>
                 (\<exists>a. env_mmap env = mapped a)
              then inactive v' vmID = None \<and>
                   (\<exists>fd. activeVmFd v' vmID = Some fd \<and> activeFdState v' fd \<noteq> None)
              else activeVmFd v' = activeVmFd v \<and> activeFdState v' = activeFdState v \<and>
                   dom (inactive v') = dom (inactive v)
          | _ \<Rightarrow> v' = v \<and> calls = [])"
proof -
  have v': "v' = fst (snd (perform v c))" using assms(3) by simp
  have e: "exclusive v'" unfolding v' using assms(1) by (rule perform_exclusive)
  have f: "fds_agree v'" unfolding v' using assms(1,2) by (rule perform_fds)
  show ?thesis
  proof (cases c)
    case (op_RegisterVM cfg)
    then show ?thesis using e f assms(3) RegisterVM_error[of v cfg err v' calls] by simp
  next
    case (op_AddInstance env vmID)
    show ?thesis
    proof (cases "inactive v vmID \<noteq> None \<and> activeVmFd v vmID = None \<and>
                 (\<exists>a. env_mmap env = mapped a)")
      case True
      then obtain a where a: "env_mmap env = mapped a" by blast
      from AddInstance_late_error[of env v vmID err v' calls a] True a assms(3) op_AddInstance
      show ?thesis using e f by simp
    next
      case False
      from AddInstance_early_error[of env v vmID err v' calls] False assms(3) op_AddInstance
      show ?thesis using e f by simp
    qed
  next
    case (op_RemoveInstance env vmID)
    then show ?thesis
      using e f assms(3) RemoveInstance_exclusive_result[OF assms(1), of env vmID] by simp
  next
    case (op_FetchState vmID)
    then show ?thesis using assms(3) by (simp add: FetchState_def)
  qed
qed
theorem error_returns_keep_indices_witness:
  "exclusive (after NewMemoryManager [op_RegisterVM vm1_cfg]) \<and>
   fds_agree (after NewMemoryManager [op_RegisterVM vm1_cfg]) \<and>
   perform (after NewMemoryManager [op_RegisterVM vm1_cfg])
      (op_AddInstance (vm1_env\<lparr>env_epoll_add := Some 28\<rparr>) ''vm1'') =
     (Some (Errno 28),
      \<lparr>inactive = Map.empty,
       activeFdState = [5 \<mapsto> vm1_state\<lparr>startAddress := 0, startAddressOnce := False\<rparr>],
       activeVmFd = [''vm1'' \<mapsto> 5], epfd = 0\<rparr>,
      [sys_open ''/snap/vm1.mem'', sys_mmap 8192, sys_recv_uffd, sys_epoll_ctl_add 0 5]) \<and>
   fds_agree
     \<lparr>inactive = Map.empty,
      activeFdState = [5 \<mapsto> vm1_state\<lparr>startAddress := 0, startAddressOnce := False\<rparr>],
      activeVmFd = [''vm1'' \<mapsto> 5], epfd = 0\<rparr>"
proof -
  have h1: "exclusive (after NewMemoryManager [op_RegisterVM vm1_cfg])"
    using exclusive_New by (rule after_exclusive)
  have h2: "fds_agree (after NewMemoryManager [op_RegisterVM vm1_cfg])"
    unfolding registered by (simp add: fds_agree_def)
  have h3: "perform (after NewMemoryManager [op_RegisterVM vm1_cfg])
      (op_AddInstance (vm1_env\<lparr>env_epoll_add := Some 28\<rparr>) ''vm1'') =
     (Some (Errno 28),
      \<lparr>inactive = Map.empty,
       activeFdState = [5 \<mapsto> vm1_state\<lparr>startAddress := 0, startAddressOnce := False\<rparr>],
       activeVmFd = [''vm1'' \<mapsto> 5], epfd = 0\<rparr>,
      [sys_open ''/snap/vm1.mem'', sys_mmap 8192, sys_recv_uffd, sys_epoll_ctl_add 0 5])"
    using add_epoll_failure by simp
  from error_returns_keep_indices[OF h1 h2 h3]
  have "fds_agree
     \<lparr>inactive = Map.empty,
      activeFdState = [5 \<mapsto> vm1_state\<lparr>startAddress := 0, startAddressOnce := False\<rparr>],
      activeVmFd = [''vm1'' \<mapsto> 5], epfd = 0\<rparr>"
    by blast
  with h1 h2 h3 show ?thesis by blast
qed

text \<open>
  Claim C7, as stated, fails: \<open>AddInstance\<close> calls \<open>getUFFD\<close> as a statement and has no
  test on its outcome.  When the descriptor is not obtained, \<open>AddInstance\<close> returns no error,
  the VM leaves \<open>inactive\<close> and enters both active maps under the number that the state
  holds, and \<open>munmap\<close> is not called.
\<close>

theorem AddInstance_uffd_failure_counterexample:
  "AddInstance (vm1_env\<lparr>env_uffd := uffd_failed\<rparr>)
       (after NewMemoryManager [op_RegisterVM vm1_cfg]) ''vm1'' =
     (None,
      \<lparr>inactive = Map.empty,
       activeFdState =
         [- 1 \<mapsto> vm1_state\<lparr>startAddress := 0, startAddressOnce := False, UserFaultFD := - 1\<rparr>],
       activeVmFd = [''vm1'' \<mapsto> - 1], epfd = 0\<rparr>,
      [sys_open ''/snap/vm1.mem'', sys_mmap 8192, sys_recv_uffd, sys_epoll_ctl_add 0 (- 1)])"
  by (rule add_uffd_failure)

text \<open>
  Claim C7, amended.  Once the guest memory of a registered, inactive VM has been mapped,
  \<open>AddInstance\<close> goes on in the same way whether or not the descriptor was obtained: the VM
  is taken out of \<open>inactive\<close> and entered in both active maps under the descriptor number
  that the state then holds, \<open>munmap\<close> is not called, and the value returned is the outcome
  of the epoll-add step alone.
\<close>

theorem AddInstance_ignores_uffd_outcome:
  assumes "inactive v vmID = Some state"
    and "activeVmFd v vmID = None"
    and "env_mmap env = mapped a"
  shows "\<exists>v' calls.
           AddInstance env v vmID = (map_option Errno (env_epoll_add env), v', calls) \<and>
           inactive v' vmID = None \<and>
           activeVmFd v' vmID = Some (UserFaultFD (getUFFD (env_uffd env) state)) \<and>
           activeFdState v' (UserFaultFD (getUFFD (env_uffd env) state)) \<noteq> None \<and>
           sys_recv_uffd \<in> set calls \<and> (\<forall>x. sys_munmap x \<notin> set calls)"
  unfolding AddInstance_activates[OF assms] by simp

theorem AddInstance_ignores_uffd_outcome_witness:
  "inactive (after NewMemoryManager [op_RegisterVM vm1_cfg]) ''vm1'' =
     Some (NewSnapshotState vm1_cfg) \<and>
   activeVmFd (after NewMemoryManager [op_RegisterVM vm1_cfg]) ''vm1'' = None \<and>
   env_mmap (vm1_env\<lparr>env_uffd := uffd_failed\<rparr>) = mapped 0x7F0000000000 \<and>
   (\<exists>v' calls.
      AddInstance (vm1_env\<lparr>env_uffd := uffd_failed\<rparr>)
        (after NewMemoryManager [op_RegisterVM vm1_cfg]) ''vm1'' = (None, v', calls) \<and>
      inactive v' ''vm1'' = None \<and> activeVmFd v' ''vm1'' = Some (- 1))"
proof -
  have h1: "inactive (after NewMemoryManager [op_RegisterVM vm1_cfg]) ''vm1'' =
      Some (NewSnapshotState vm1_cfg)"
    unfolding registered by simp
  have h2: "activeVmFd (after NewMemoryManager [op_RegisterVM vm1_cfg]) ''vm1'' = None"
    unfolding registered by simp
  have h3: "env_mmap (vm1_env\<lparr>env_uffd := uffd_failed\<rparr>) = mapped 0x7F0000000000"
    by (simp add: vm1_env_def)
  let ?env = "vm1_env\<lparr>env_uffd := uffd_failed\<rparr>"
  from AddInstance_ignores_uffd_outcome[OF h1 h2 h3]
  obtain v' calls where
    r: "AddInstance ?env (after NewMemoryManager [op_RegisterVM vm1_cfg]) ''vm1'' =
          (map_option Errno (env_epoll_add ?env), v', calls)"
    and i: "inactive v' ''vm1'' = None"
    and a: "activeVmFd v' ''vm1'' =
          Some (UserFaultFD (getUFFD (env_uffd ?env) (NewSnapshotState vm1_cfg)))"
    by blast
  have "map_option Errno (env_epoll_add ?env) = None"
    by (simp add: vm1_env_def)
  moreover have "UserFaultFD (getUFFD (env_uffd ?env) (NewSnapshotState vm1_cfg)) = - 1"
    by (simp add: getUFFD_def NewSnapshotState_def)
  ultimately have "AddInstance ?env (after NewMemoryManager [op_RegisterVM vm1_cfg]) ''vm1'' =
      (None, v', calls) \<and> inactive v' ''vm1'' = None \<and> activeVmFd v' ''vm1'' = Some (- 1)"
    using r i a by simp
  with h1 h2 h3 show ?thesis by blast
qed

end
